theory Spec2Isabelle
  imports Main
begin

section \<open>JavaScript values\<close>

text \<open>
  The values that travel through the wrapper: filter and data maps, positional
  arguments, result rows. Numbers are the integers (fractions and NaN are left out).
  An object is the list of its own enumerable properties in enumeration order, with
  distinct keys; the spread \<^verbatim>\<open>{...data}\<close> copies that list as it is.
\<close>

datatype jsval =
    JUndefined
  | JNull
  | JBool bool
  | JNum int
  | JStr string
  | JArr "jsval list"
  | JObj "(string \<times> jsval) list"

type_synonym obj = "(string \<times> jsval) list"

text \<open>Truthiness, as tested by \<^verbatim>\<open>if(x)\<close> and \<^verbatim>\<open>!x\<close>.\<close>

fun truthy :: "jsval \<Rightarrow> bool" where
  "truthy JUndefined = False"
| "truthy JNull = False"
| "truthy (JBool b) = b"
| "truthy (JNum n) = (n \<noteq> 0)"
| "truthy (JStr s) = (s \<noteq> [])"
| "truthy (JArr vs) = True"
| "truthy (JObj ps) = True"

text \<open>\<^verbatim>\<open>typeof v === 'object'\<close> holds of objects, arrays and null.\<close>

fun typeof_object :: "jsval \<Rightarrow> bool" where
  "typeof_object JNull = True"
| "typeof_object (JArr vs) = True"
| "typeof_object (JObj ps) = True"
| "typeof_object v = False"

fun typeof_string :: "jsval \<Rightarrow> bool" where
  "typeof_string (JStr s) = True"
| "typeof_string v = False"

text \<open>Decimal digits of a natural number, as string concatenation prints an index.\<close>

fun show_nat :: "nat \<Rightarrow> string" where
  "show_nat n =
     (if n < 10 then [''0123456789'' ! n]
      else show_nat (n div 10) @ [''0123456789'' ! (n mod 10)])"

declare show_nat.simps [simp del]

text \<open>\<^verbatim>\<open>Array.prototype.join\<close> on strings.\<close>

fun js_join :: "string \<Rightarrow> string list \<Rightarrow> string" where
  "js_join sep [] = []"
| "js_join sep [x] = x"
| "js_join sep (x # y # ys) = x @ sep @ js_join sep (y # ys)"

text \<open>
  The string conversion that \<^verbatim>\<open>String(v)\<close>, \<^verbatim>\<open>'...' + v\<close>, a template literal and
  a property key apply to a value. An array prints its elements joined by commas,
  null and undefined elements as the empty string; a plain object prints as
  \<^verbatim>\<open>[object Object]\<close>.
\<close>

fun js_String :: "jsval \<Rightarrow> string" where
  "js_String JUndefined = ''undefined''"
| "js_String JNull = ''null''"
| "js_String (JBool b) = (if b then ''true'' else ''false'')"
| "js_String (JNum n) = (if n < 0 then ''-'' @ show_nat (nat (- n)) else show_nat (nat n))"
| "js_String (JStr s) = s"
| "js_String (JArr vs) =
     js_join '','' (map (\<lambda>v. if v = JUndefined \<or> v = JNull then [] else js_String v) vs)"
| "js_String (JObj ps) = ''[object Object]''"

text \<open>
  Reading a property: \<^verbatim>\<open>o[k]\<close> is undefined when \<^verbatim>\<open>o\<close> has no key \<^verbatim>\<open>k\<close>.
  The keys read this way are column names; the names that every object inherits
  (\<^verbatim>\<open>toString\<close>, \<^verbatim>\<open>constructor\<close>, ...) are taken not to be column names.
\<close>

definition js_get :: "obj \<Rightarrow> string \<Rightarrow> jsval" where
  "js_get ob k = (case map_of ob k of None \<Rightarrow> JUndefined | Some v \<Rightarrow> v)"

definition hasOwnProperty :: "obj \<Rightarrow> string \<Rightarrow> bool" where
  "hasOwnProperty ob k = (map_of ob k \<noteq> None)"

text \<open>
  Lodash's \<^verbatim>\<open>_.isEqual\<close>: primitives by value, arrays element by element, objects
  by their key sets and the values under each key, whatever the order of the keys.
\<close>

fun js_isEqual :: "jsval \<Rightarrow> jsval \<Rightarrow> bool" where
  "js_isEqual (JArr xs) (JArr ys) =
     list_all2 (\<lambda>x y. js_isEqual x y) xs ys"
| "js_isEqual (JObj ps) (JObj qs) =
     (length ps = length qs \<and>
      list_all (\<lambda>(k, v). case map_of qs k of None \<Rightarrow> False | Some w \<Rightarrow> js_isEqual v w) ps)"
| "js_isEqual v w = (v = w)"

section \<open>Strings: search and replace\<close>

definition starts_with :: "string \<Rightarrow> string \<Rightarrow> bool" where
  "starts_with pat s = (take (length pat) s = pat)"

text \<open>\<^verbatim>\<open>sql.match(/UPDATE/g)\<close> is truthy exactly when the text occurs somewhere.\<close>

fun contains :: "string \<Rightarrow> string \<Rightarrow> bool" where
  "contains pat [] = (pat = [])"
| "contains pat (c # cs) = (starts_with pat (c # cs) \<or> contains pat cs)"

text \<open>\<^verbatim>\<open>String.prototype.replace\<close> with a string pattern replaces the first occurrence only.\<close>

fun replace_first :: "string \<Rightarrow> string \<Rightarrow> string \<Rightarrow> string" where
  "replace_first pat rep [] = (if pat = [] then rep else [])"
| "replace_first pat rep (c # cs) =
     (if starts_with pat (c # cs) then rep @ drop (length pat) (c # cs)
      else c # replace_first pat rep cs)"

section \<open>Module constants\<close>

text \<open>
  \<^verbatim>\<open>dbStatusField\<close> (a column name or null), \<^verbatim>\<open>dbStatusValues\<close> (an object with
  the keys Active, Delete and Archived) and \<^verbatim>\<open>dbSanitizeFields\<close> are constants that
  whoever deploys the module edits, so they are a parameter of every operation.
  \<^verbatim>\<open>JSON.stringify\<close> is a built-in of the runtime; it is carried along as a function.
\<close>

record status_values =
  Active :: jsval
  Delete :: jsval
  Archived :: jsval

record config =
  dbStatusField :: "string option"
  dbStatusValues :: status_values
  dbSanitizeFields :: bool
  JSON_stringify :: "jsval \<Rightarrow> jsval"

text \<open>
  \<^verbatim>\<open>dbStatusValues.Deleted\<close>: the object declares no property of that name, so the
  read yields undefined whatever the three declared values are.
\<close>

definition Deleted :: "status_values \<Rightarrow> jsval" where
  "Deleted sv = JUndefined"

text \<open>The status column when \<^verbatim>\<open>dbStatusField\<close> is truthy (neither null nor empty).\<close>

definition status_column :: "config \<Rightarrow> string option" where
  "status_column cfg =
     (case dbStatusField cfg of None \<Rightarrow> None | Some s \<Rightarrow> if s = [] then None else Some s)"

text \<open>The constants as the source file sets them.\<close>

definition source_config :: "(jsval \<Rightarrow> jsval) \<Rightarrow> config" where
  "source_config stringify =
     \<lparr> dbStatusField = Some ''datastateid'',
       dbStatusValues = \<lparr> Active = JNull, Delete = JNull, Archived = JNull \<rparr>,
       dbSanitizeFields = False,
       JSON_stringify = stringify \<rparr>"

section \<open>The driver and the statements it executes\<close>

text \<open>
  The database client is outside the module. A statement is the SQL text with its
  positional arguments (none when \<^verbatim>\<open>query\<close> is called with a callback in their
  place). The driver answers each statement with an error or with result rows; its
  answer may depend on everything executed before, so it is a function of the log of
  executed statements. On an error the driver calls back with the error alone: the
  result is undefined.
\<close>

type_synonym statement = "string \<times> jsval list option"

datatype reply = Failure string | Success "obj list"

type_synonym driver = "statement list \<Rightarrow> statement \<Rightarrow> reply"

text \<open>
  An error object: its message and the \<^verbatim>\<open>args\<close> property that \<^verbatim>\<open>query\<close>
  attaches, which is the list of positional arguments or, in the branch where the
  second argument is the callback, that callback function.
\<close>

datatype err_args = NoArgs | ArgsValues "jsval list" | ArgsCallback

datatype js_error = JsError (message: string) (attached: err_args)

datatype js_exception = TypeError

text \<open>
  A result as \<^verbatim>\<open>buildIndex\<close> returns it: the rows and \<^verbatim>\<open>irows\<close>, which is the
  empty array or an object from property keys to lists of rows.
\<close>

datatype irows = NoIndex | Index "string \<Rightarrow> obj list option"

record result =
  rows :: "obj list"
  irows :: irows

text \<open>
  The names every plain object inherits. \<^verbatim>\<open>list[k]\<close> on the fresh object
  \<^verbatim>\<open>list = {}\<close> is truthy for them before any assignment, and what it yields has no
  \<^verbatim>\<open>push\<close>.
\<close>

definition object_prototype_keys :: "string list" where
  "object_prototype_keys =
     [''constructor'', ''__defineGetter__'', ''__defineSetter__'', ''hasOwnProperty'',
      ''__lookupGetter__'', ''__lookupSetter__'', ''isPrototypeOf'',
      ''propertyIsEnumerable'', ''toString'', ''valueOf'', ''__proto__'',
      ''toLocaleString'']"

text \<open>
  The \<^verbatim>\<open>forEach\<close> of \<^verbatim>\<open>buildIndex\<close>: the key of a row is the string form of
  \<^verbatim>\<open>val[index]\<close>; the row is pushed on the list under that key, which is created
  empty when \<^verbatim>\<open>list[key]\<close> is falsy.
\<close>

fun group_rows :: "string \<Rightarrow> obj list \<Rightarrow> (string \<Rightarrow> obj list option)
    \<Rightarrow> js_exception + (string \<Rightarrow> obj list option)" where
  "group_rows index [] list = Inr list"
| "group_rows index (val # vals) list =
     (let k = js_String (js_get val index) in
      case list k of
        Some l \<Rightarrow> group_rows index vals (list(k \<mapsto> l @ [val]))
      | None \<Rightarrow>
          if k \<in> set object_prototype_keys then Inl TypeError
          else group_rows index vals (list(k \<mapsto> [val])))"

text \<open>
  \<^verbatim>\<open>buildIndex(res, index)\<close>; \<^verbatim>\<open>None\<close> is an undefined \<^verbatim>\<open>res\<close>, on which the
  else branch's assignment \<^verbatim>\<open>res.irows = []\<close> throws.
\<close>

definition buildIndex :: "obj list option \<Rightarrow> string \<Rightarrow> js_exception + result" where
  "buildIndex res index =
     (case res of
        None \<Rightarrow> Inl TypeError
      | Some rs \<Rightarrow>
          if index \<noteq> [] \<and> rs \<noteq> [] \<and> hasOwnProperty (hd rs) index then
            (case group_rows index rs Map.empty of
               Inl e \<Rightarrow> Inl e
             | Inr list \<Rightarrow> Inr \<lparr> rows = rs, irows = Index list \<rparr>)
          else Inr \<lparr> rows = rs, irows = NoIndex \<rparr>)"

text \<open>
  What \<^verbatim>\<open>query\<close> does with its callback: it calls it with an error, calls it with a
  result, or an exception escapes before the call and the callback never runs.
\<close>

datatype called = Threw | CallErr js_error | CallOk result

text \<open>The rewriting of the non-callback branch: a text in which UPDATE occurs gets
  the timestamp assignment after its first \<^verbatim>\<open>SET \<close>.\<close>

definition stamp_modified :: "string \<Rightarrow> string" where
  "stamp_modified sql =
     (if contains ''UPDATE'' sql then replace_first ''SET '' ''SET modified = now(), '' sql
      else sql)"

text \<open>
  \<^verbatim>\<open>query(sql, callback)\<close>, the branch \<^verbatim>\<open>typeof args === 'function'\<close>: the text is
  executed as it is; the callback is called with \<^verbatim>\<open>buildIndex(res, index)\<close> in both
  cases, and \<^verbatim>\<open>err.args\<close> is the callback.
\<close>

definition query_callback :: "driver \<Rightarrow> statement list \<Rightarrow> string \<Rightarrow> string
    \<Rightarrow> called \<times> statement list" where
  "query_callback drv lg sql index =
     (let st = (sql, None); lg' = lg @ [st] in
      case drv lg st of
        Failure m \<Rightarrow>
          (case buildIndex None index of
             Inl e \<Rightarrow> (Threw, lg')
           | Inr r \<Rightarrow> (CallErr (JsError m ArgsCallback), lg'))
      | Success rs \<Rightarrow>
          (case buildIndex (Some rs) index of
             Inl e \<Rightarrow> (Threw, lg')
           | Inr r \<Rightarrow> (CallOk r, lg')))"

text \<open>
  \<^verbatim>\<open>query(sql, args, callback, index)\<close> with an argument list: the text is stamped,
  executed once, and the callback gets the error with \<^verbatim>\<open>err.args = args\<close> (and a null
  result) or the indexed result.
\<close>

definition query :: "driver \<Rightarrow> statement list \<Rightarrow> string \<Rightarrow> jsval list \<Rightarrow> string
    \<Rightarrow> called \<times> statement list" where
  "query drv lg sql args index =
     (let st = (stamp_modified sql, Some args); lg' = lg @ [st] in
      case drv lg st of
        Failure m \<Rightarrow> (CallErr (JsError m (ArgsValues args)), lg')
      | Success rs \<Rightarrow>
          (case buildIndex (Some rs) index of
             Inl e \<Rightarrow> (Threw, lg')
           | Inr r \<Rightarrow> (CallOk r, lg')))"

section \<open>Promises\<close>

text \<open>
  How a promise returned by an operation ends: resolved with a value, rejected with an
  error, or never settled. It stays pending when an exception escapes inside a driver
  callback, or when the promise it waits for rejects and the \<^verbatim>\<open>then\<close> has no
  rejection handler: neither \<^verbatim>\<open>resolve\<close> nor \<^verbatim>\<open>reject\<close> is then ever called.
\<close>

datatype 'a outcome = Resolved 'a | Rejected js_error | Pending

section \<open>sanitizeFields, select and selectOne\<close>

text \<open>What \<^verbatim>\<open>sanitizeFields\<close> resolves with; \<^verbatim>\<open>matches\<close> is null or the old values.\<close>

datatype sanitized = Sanitized (fields: obj) (matches: "obj option")

definition schema_sql :: "string \<Rightarrow> string" where
  "schema_sql table =
     ''SELECT * FROM information_schema.columns WHERE table_schema = 'public' AND table_name = ''
       @ [CHR 0x27] @ table @ [CHR 0x27]"

text \<open>The \<^verbatim>\<open>switch(colData.data_type)\<close> applied to the value of one field.\<close>

definition coerce :: "(jsval \<Rightarrow> jsval) \<Rightarrow> jsval \<Rightarrow> jsval \<Rightarrow> jsval" where
  "coerce stringify data_type v =
     (if data_type = JStr ''bit'' then (if truthy v then JStr ''1'' else JStr ''0'')
      else if data_type = JStr ''character varying'' then
        (if v \<noteq> JNull then JStr (js_String v) else v)
      else if data_type = JStr ''json'' \<or> data_type = JStr ''jsonb'' then
        (if \<not> typeof_string v then stringify v else v)
      else v)"

text \<open>
  \<^verbatim>\<open>columns.find((col) => col.column_name == field)\<close>. The catalogue reports
  \<^verbatim>\<open>column_name\<close> as text, so the loose comparison is one of strings.
\<close>

definition find_column :: "obj list \<Rightarrow> string \<Rightarrow> obj option" where
  "find_column columns field = find (\<lambda>col. js_get col ''column_name'' = JStr field) columns"

text \<open>
  The \<^verbatim>\<open>for(const field in fields)\<close> of \<^verbatim>\<open>sanitizeFields\<close>: a field with a column is
  coerced in place and, when comparing, its old value is recorded; a field without one
  is deleted. The result is the pair of \<^verbatim>\<open>fields\<close> and \<^verbatim>\<open>oldFields\<close>.
\<close>

fun sanitize_loop :: "(jsval \<Rightarrow> jsval) \<Rightarrow> obj list \<Rightarrow> bool \<Rightarrow> obj \<Rightarrow> obj \<Rightarrow> obj \<times> obj" where
  "sanitize_loop stringify columns comparing oldData [] = ([], [])"
| "sanitize_loop stringify columns comparing oldData ((field, v) # rest) =
     (let (flds, oldFields) = sanitize_loop stringify columns comparing oldData rest in
      case find_column columns field of
        Some colData \<Rightarrow>
          ((field, coerce stringify (js_get colData ''data_type'') v) # flds,
           if comparing then (field, js_get oldData field) # oldFields else oldFields)
      | None \<Rightarrow> (flds, oldFields))"

definition sanitize_resolve :: "(jsval \<Rightarrow> jsval) \<Rightarrow> obj list \<Rightarrow> bool \<Rightarrow> obj \<Rightarrow> obj \<Rightarrow> sanitized" where
  "sanitize_resolve stringify columns comparing oldData flds0 =
     (let (flds, oldFields) = sanitize_loop stringify columns comparing oldData flds0 in
      Sanitized flds
        (if comparing \<and> js_isEqual (JObj flds) (JObj oldFields) then Some oldFields else None))"

text \<open>
  \<^verbatim>\<open>sanitizeFields(table, fields, compareId)\<close>, with \<^verbatim>\<open>this.selectOne\<close> as the
  argument \<open>sel\<close>: \<^verbatim>\<open>selectOne\<close> is defined below from \<^verbatim>\<open>select\<close>, which itself
  calls \<^verbatim>\<open>sanitizeFields\<close>, always without a \<^verbatim>\<open>compareId\<close>. The schema lookup goes
  through the callback branch of \<^verbatim>\<open>query\<close>. \<^verbatim>\<open>waitFor\<close> has no rejection handler on
  \<^verbatim>\<open>selectOne\<close>.
\<close>

definition sanitizeFields_with ::
  "(statement list \<Rightarrow> string \<Rightarrow> obj \<Rightarrow> obj outcome \<times> statement list)
    \<Rightarrow> config \<Rightarrow> driver \<Rightarrow> statement list \<Rightarrow> string \<Rightarrow> obj \<Rightarrow> jsval
    \<Rightarrow> sanitized outcome \<times> statement list" where
  "sanitizeFields_with sel cfg drv lg table flds compareId =
     (if dbSanitizeFields cfg then
        (case query_callback drv lg (schema_sql table) [] of
           (CallErr err, lg1) \<Rightarrow> (Rejected (JsError ''Failed To Gather Columns'' NoArgs), lg1)
         | (Threw, lg1) \<Rightarrow> (Pending, lg1)
         | (CallOk res, lg1) \<Rightarrow>
             (let columns = rows res in
              if truthy compareId then
                (case sel lg1 table [(table @ ''id'', compareId)] of
                   (Resolved oldData, lg2) \<Rightarrow>
                     (Resolved (sanitize_resolve (JSON_stringify cfg) columns True oldData flds), lg2)
                 | (Rejected e, lg2) \<Rightarrow> (Pending, lg2)
                 | (Pending, lg2) \<Rightarrow> (Pending, lg2))
              else (Resolved (sanitize_resolve (JSON_stringify cfg) columns False [] flds), lg1)))
      else (Resolved (Sanitized flds None), lg))"

text \<open>
  The loop that select and update share in form: \<^verbatim>\<open>field + ' = $' + index\<close> for each
  field, the index counting from the given start.
\<close>

fun field_placeholders :: "nat \<Rightarrow> obj \<Rightarrow> string list" where
  "field_placeholders index [] = []"
| "field_placeholders index ((field, v) # rest) =
     (field @ '' = $'' @ show_nat index) # field_placeholders (index + 1) rest"

text \<open>
  The text \<^verbatim>\<open>select\<close> builds from the sanitized fields; the implicit status predicate
  looks at the filter as the caller passed it.
\<close>

definition select_sql :: "config \<Rightarrow> string \<Rightarrow> obj \<Rightarrow> obj \<Rightarrow> string option \<Rightarrow> string" where
  \<open>select_sql cfg table flds fltr orderBy =
     (let matchFields = field_placeholders 1 flds @
            (case status_column cfg of
               Some s \<Rightarrow>
                 if \<not> truthy (js_get fltr s)
                 then [s @ '' = '' @ js_String (Active (dbStatusValues cfg))] else []
             | None \<Rightarrow> []);
          sql = ''SELECT * FROM "'' @ table @ ''"'';
          sql = (if matchFields \<noteq> [] then sql @ '' WHERE '' @ js_join '' AND '' matchFields
                 else sql)
      in case orderBy of
           Some ob \<Rightarrow> if ob \<noteq> [] then sql @ '' ORDER BY '' @ ob else sql
         | None \<Rightarrow> sql)\<close>

text \<open>
  \<^verbatim>\<open>select(table, filter, orderBy)\<close>. Its \<^verbatim>\<open>then\<close> on \<^verbatim>\<open>sanitizeFields\<close> has no
  rejection handler. Its own rejection is a fresh error.
\<close>

definition select :: "config \<Rightarrow> driver \<Rightarrow> statement list \<Rightarrow> string \<Rightarrow> obj \<Rightarrow> string option
    \<Rightarrow> obj list outcome \<times> statement list" where
  "select cfg drv lg table fltr orderBy =
     (case sanitizeFields_with (\<lambda>lg0 t f. (Pending, lg0)) cfg drv lg table fltr JNull of
        (Resolved data, lg1) \<Rightarrow>
          (case query drv lg1 (select_sql cfg table (fields data) fltr orderBy)
                  (map snd (fields data)) [] of
             (CallErr err, lg2) \<Rightarrow> (Rejected (JsError ''Failed select()'' NoArgs), lg2)
           | (CallOk res, lg2) \<Rightarrow> (Resolved (rows res), lg2)
           | (Threw, lg2) \<Rightarrow> (Pending, lg2))
      | (Rejected e, lg1) \<Rightarrow> (Pending, lg1)
      | (Pending, lg1) \<Rightarrow> (Pending, lg1))"

definition selectOne :: "config \<Rightarrow> driver \<Rightarrow> statement list \<Rightarrow> string \<Rightarrow> obj
    \<Rightarrow> obj outcome \<times> statement list" where
  "selectOne cfg drv lg table fltr =
     (case select cfg drv lg table fltr None of
        (Resolved rs, lg1) \<Rightarrow> (case rs of [] \<Rightarrow> (Resolved [], lg1) | r # _ \<Rightarrow> (Resolved r, lg1))
      | (Rejected err, lg1) \<Rightarrow> (Rejected err, lg1)
      | (Pending, lg1) \<Rightarrow> (Pending, lg1))"

definition sanitizeFields :: "config \<Rightarrow> driver \<Rightarrow> statement list \<Rightarrow> string \<Rightarrow> obj \<Rightarrow> jsval
    \<Rightarrow> sanitized outcome \<times> statement list" where
  "sanitizeFields cfg drv lg table flds compareId =
     sanitizeFields_with (selectOne cfg drv) cfg drv lg table flds compareId"

section \<open>update\<close>

text \<open>
  The properties a \<^verbatim>\<open>for ... in\<close> visits: those of an object, the indices of an
  array, none of null.
\<close>

fun enumerable :: "jsval \<Rightarrow> obj" where
  "enumerable (JObj ps) = ps"
| "enumerable (JArr vs) = zip (map show_nat [0..<length vs]) vs"
| "enumerable v = []"

text \<open>The \<^verbatim>\<open>for(let key in id)\<close> of \<^verbatim>\<open>update\<close>, on the values and the text so far.\<close>

fun where_keys :: "obj \<Rightarrow> jsval list \<Rightarrow> string \<Rightarrow> string \<times> jsval list" where
  "where_keys [] values sql = (sql, values)"
| "where_keys ((key, v) # rest) values sql =
     where_keys rest (values @ [v]) (sql @ key @ '' = $'' @ show_nat (length (values @ [v])))"

text \<open>
  The SET entries and the values of \<^verbatim>\<open>update\<close>, from the sanitized fields: one
  placeholder per field, then the status column with the Active value when the fields
  hold no truthy value for it.
\<close>

definition update_set :: "config \<Rightarrow> obj \<Rightarrow> string list \<times> jsval list" where
  "update_set cfg flds =
     (let setFields = field_placeholders 1 flds;
          values = map snd flds
      in case status_column cfg of
           Some s \<Rightarrow>
             if \<not> truthy (js_get flds s)
             then (setFields @ [s @ '' = $'' @ show_nat (length setFields + 1)],
                   values @ [Active (dbStatusValues cfg)])
             else (setFields, values)
         | None \<Rightarrow> (setFields, values))"

text \<open>The WHERE clause: the loop over the keys of an id that is an object, or the
  single pair on the \<^verbatim>\<open>{table}id\<close> column.\<close>

definition update_where :: "string \<Rightarrow> jsval \<Rightarrow> jsval list \<Rightarrow> string \<Rightarrow> string \<times> jsval list" where
  "update_where table rid values sql =
     (if typeof_object rid then where_keys (enumerable rid) values sql
      else (sql @ table @ ''id = $'' @ show_nat (length (values @ [rid])), values @ [rid]))"

text \<open>The text and the values \<^verbatim>\<open>update\<close> passes to \<^verbatim>\<open>query\<close>.\<close>

definition update_statement :: "config \<Rightarrow> string \<Rightarrow> jsval \<Rightarrow> obj \<Rightarrow> string \<times> jsval list" where
  \<open>update_statement cfg table rid flds =
     (let (setFields, values) = update_set cfg flds;
          sql = ''UPDATE "'' @ table @ ''" SET '' @ js_join '', '' setFields @ '' WHERE '';
          (sql, values) = update_where table rid values sql
      in (sql @ '' RETURNING *'', values))\<close>

definition update :: "config \<Rightarrow> driver \<Rightarrow> statement list \<Rightarrow> string \<Rightarrow> jsval \<Rightarrow> obj \<Rightarrow> bool
    \<Rightarrow> jsval outcome \<times> statement list" where
  "update cfg drv lg table rid data status =
     (let compareId = (if status then rid else JNull) in
      case sanitizeFields cfg drv lg table data compareId of
        (Resolved d, lg1) \<Rightarrow>
          (case matches d of
             None \<Rightarrow>
               (let (sql, values) = update_statement cfg table rid (fields d) in
                case query drv lg1 sql values [] of
                  (CallErr err, lg2) \<Rightarrow> (Rejected err, lg2)
                | (CallOk res, lg2) \<Rightarrow>
                    (if status
                     then (Resolved (JObj [(''results'', JArr (map JObj (rows res))),
                                           (''updated'', JBool True)]), lg2)
                     else (Resolved (JArr (map JObj (rows res))), lg2))
                | (Threw, lg2) \<Rightarrow> (Pending, lg2))
           | Some old \<Rightarrow>
               (if status
                then (Resolved (JObj [(''results'', JObj old), (''updated'', JBool False)]), lg1)
                else (Resolved (JObj old), lg1)))
      | (Rejected err, lg1) \<Rightarrow> (Rejected err, lg1)
      | (Pending, lg1) \<Rightarrow> (Pending, lg1))"

section \<open>insert\<close>

text \<open>The \<^verbatim>\<open>conflict\<close> argument: null, a string, or an array of column names.\<close>

datatype conflict = NoConflict | ConflictTarget string | ConflictColumns "string list"

fun conflict_truthy :: "conflict \<Rightarrow> bool" where
  "conflict_truthy NoConflict = False"
| "conflict_truthy (ConflictTarget s) = (s \<noteq> [])"
| "conflict_truthy (ConflictColumns cs) = True"

text \<open>\<^verbatim>\<open>Array.isArray(conflict) && conflict.length\<close>\<close>

fun conflict_array_nonempty :: "conflict \<Rightarrow> bool" where
  "conflict_array_nonempty (ConflictColumns cs) = (cs \<noteq> [])"
| "conflict_array_nonempty c = False"

text \<open>\<^verbatim>\<open>conflict.join(',')\<close> of an array, and the string form in \<^verbatim>\<open>' ON CONFLICT ' + conflict\<close>.\<close>

fun conflict_String :: "conflict \<Rightarrow> string" where
  "conflict_String NoConflict = ''null''"
| "conflict_String (ConflictTarget s) = s"
| "conflict_String (ConflictColumns cs) = js_join '','' cs"

fun index_placeholders :: "nat \<Rightarrow> obj \<Rightarrow> string list" where
  "index_placeholders index [] = []"
| "index_placeholders index ((field, v) # rest) =
     (''$'' @ show_nat index) # index_placeholders (index + 1) rest"

definition insert_sql :: "config \<Rightarrow> string \<Rightarrow> obj \<Rightarrow> conflict \<Rightarrow> string list \<Rightarrow> string" where
  \<open>insert_sql cfg table flds conflict conflictUpdate =
     (let setFields = map fst flds;
          indexes = index_placeholders 1 flds;
          sql = ''INSERT INTO "'' @ table @ ''" ('' @ js_join '','' setFields
                  @ '') VALUES ('' @ js_join '','' indexes @ '') '';
          sql =
            (if conflict_truthy conflict then
               (let sql = (if conflict_array_nonempty conflict
                           then sql @ '' ON CONFLICT ('' @ conflict_String conflict
                                  @ '') DO UPDATE SET ''
                           else sql @ '' ON CONFLICT '' @ conflict_String conflict
                                  @ '' DO UPDATE SET '');
                    doUpdates = map (\<lambda>conflictField. conflictField @ '' = EXCLUDED.'' @ conflictField)
                                  conflictUpdate;
                    doUpdates =
                      (case status_column cfg of
                         Some s \<Rightarrow>
                           if s \<notin> set setFields
                           then doUpdates @ [s @ '' = '' @ js_String (Active (dbStatusValues cfg))]
                           else doUpdates
                       | None \<Rightarrow> doUpdates)
                in sql @ js_join '', '' doUpdates @ '' '')
             else sql)
      in sql @ ''RETURNING '' @ table @ ''id'')\<close>

text \<open>
  \<^verbatim>\<open>insert(table, data, conflict, conflictUpdate)\<close>; reading \<^verbatim>\<open>result.rows[0]\<close> of an
  empty result throws inside the callback.
\<close>

definition insert_row :: "config \<Rightarrow> driver \<Rightarrow> statement list \<Rightarrow> string \<Rightarrow> obj \<Rightarrow> conflict
    \<Rightarrow> string list \<Rightarrow> jsval outcome \<times> statement list" where
  "insert_row cfg drv lg table data conflict conflictUpdate =
     (case sanitizeFields cfg drv lg table data JNull of
        (Resolved d, lg1) \<Rightarrow>
          (case query drv lg1 (insert_sql cfg table (fields d) conflict conflictUpdate)
                  (map snd (fields d)) [] of
             (CallErr err, lg2) \<Rightarrow> (Rejected err, lg2)
           | (CallOk res, lg2) \<Rightarrow>
               (case rows res of
                  [] \<Rightarrow> (Pending, lg2)
                | r # _ \<Rightarrow> (Resolved (js_get r (table @ ''id'')), lg2))
           | (Threw, lg2) \<Rightarrow> (Pending, lg2))
      | (Rejected err, lg1) \<Rightarrow> (Rejected err, lg1)
      | (Pending, lg1) \<Rightarrow> (Pending, lg1))"

section \<open>delete\<close>

definition delete_sql :: "config \<Rightarrow> string \<Rightarrow> jsval \<Rightarrow> string \<Rightarrow> string" where
  \<open>delete_sql cfg table rid idField0 =
     (let idField = (if idField0 = [] then table @ ''id'' else idField0) in
      case status_column cfg of
        Some s \<Rightarrow>
          ''UPDATE "'' @ table @ ''" SET '' @ s @ '' = '' @ js_String (Deleted (dbStatusValues cfg))
            @ '' WHERE '' @ idField @ '' = '' @ js_String rid
      | None \<Rightarrow> ''DELETE FROM "'' @ table @ ''" WHERE '' @ idField @ '' = '' @ js_String rid)\<close>

text \<open>\<^verbatim>\<open>delete(table, id, idField)\<close> runs its text through the callback branch of \<^verbatim>\<open>query\<close>.\<close>

definition delete :: "config \<Rightarrow> driver \<Rightarrow> statement list \<Rightarrow> string \<Rightarrow> jsval \<Rightarrow> string
    \<Rightarrow> bool outcome \<times> statement list" where
  "delete cfg drv lg table rid idField =
     (case query_callback drv lg (delete_sql cfg table rid idField) [] of
        (CallErr err, lg1) \<Rightarrow> (Rejected (JsError ''Failed To Delete Row'' NoArgs), lg1)
      | (CallOk res, lg1) \<Rightarrow> (Resolved True, lg1)
      | (Threw, lg1) \<Rightarrow> (Pending, lg1))"

section \<open>Example configurations, tables and drivers\<close>

text \<open>Status values that differ from one another, to tell them apart in a statement.\<close>

definition status_123 :: status_values where
  "status_123 = \<lparr> Active = JNum 1, Delete = JNum 2, Archived = JNum 3 \<rparr>"

text \<open>
  \<^verbatim>\<open>JSON.stringify\<close> on the values the examples pass to it: null, booleans and
  numbers print as their text.
\<close>

definition example_stringify :: "jsval \<Rightarrow> jsval" where
  "example_stringify v =
     (case v of
        JNull \<Rightarrow> JStr ''null''
      | JBool b \<Rightarrow> JStr (js_String (JBool b))
      | JNum n \<Rightarrow> JStr (js_String (JNum n))
      | _ \<Rightarrow> JUndefined)"

definition config_plain :: config where
  "config_plain = \<lparr> dbStatusField = Some ''datastateid'', dbStatusValues = status_123,
       dbSanitizeFields = False, JSON_stringify = example_stringify \<rparr>"

definition config_sanitize :: config where
  "config_sanitize = \<lparr> dbStatusField = Some ''datastateid'', dbStatusValues = status_123,
       dbSanitizeFields = True, JSON_stringify = example_stringify \<rparr>"

text \<open>The catalogue rows of a table \<open>users\<close> and the one row it holds.\<close>

definition users_columns :: "obj list" where
  "users_columns =
     [ [(''column_name'', JStr ''usersid''), (''data_type'', JStr ''integer'')],
      [(''column_name'', JStr ''name''), (''data_type'', JStr ''character varying'')],
      [(''column_name'', JStr ''datastateid''), (''data_type'', JStr ''character varying'')] ]"

definition alice_row :: obj where
  "alice_row = [(''usersid'', JNum 1), (''name'', JStr ''Alice''), (''datastateid'', JStr ''1'')]"

text \<open>A driver that answers the schema lookup of \<open>users\<close> with its catalogue rows and
  every other statement with the one row; and a driver that fails every statement.\<close>

definition driver_users :: driver where
  "driver_users lg st =
     (if fst st = schema_sql ''users'' then Success users_columns else Success [alice_row])"

definition driver_failing :: driver where
  "driver_failing lg st = Failure ''connection lost''"



text \<open>Rows to index by their column \<open>cat\<close>: the rows of the specification's example, and
  two rows whose values are the number 1 and the string \<open>1\<close>.\<close>

definition cat_rows :: "obj list" where
  "cat_rows = [ [(''cat'', JStr ''x''), (''id'', JNum 1)],
               [(''cat'', JStr ''x''), (''id'', JNum 2)],
               [(''cat'', JStr ''y''), (''id'', JNum 3)] ]"

definition mixed_rows :: "obj list" where
  "mixed_rows = [ [(''cat'', JNum 1), (''id'', JNum 1)],
                 [(''cat'', JStr ''1''), (''id'', JNum 2)] ]"





section \<open>Facts about search and replace\<close>

lemma starts_with_Nil [simp]: "starts_with [] s = True"
  by (simp add: starts_with_def)

lemma starts_with_Cons_Nil [simp]: "starts_with (p # ps) [] = False"
  by (simp add: starts_with_def)

lemma starts_with_Cons_Cons [simp]:
  "starts_with (p # ps) (c # cs) = (p = c \<and> starts_with ps cs)"
  by (auto simp add: starts_with_def)

lemma starts_with_append_sep:
  "starts_with pat (a @ d # b) \<Longrightarrow> d \<notin> set pat \<Longrightarrow> starts_with pat a"
proof (induction pat arbitrary: a)
  case Nil
  then show ?case by simp
next
  case (Cons p ps)
  then show ?case by (cases a) auto
qed

lemma contains_Nil_pat [simp]: "contains [] s = True"
  by (cases s) simp_all

lemma replace_first_append_sep:
  "\<not> contains pat a \<Longrightarrow> d \<notin> set pat \<Longrightarrow>
     replace_first pat rep (a @ d # b) = a @ replace_first pat rep (d # b)"
proof (induction a)
  case Nil
  then show ?case by simp
next
  case (Cons c cs)
  have "\<not> starts_with pat ((c # cs) @ d # b)"
    using Cons.prems starts_with_append_sep [of pat "c # cs" d b] by auto
  then show ?case using Cons by simp
qed

lemma contains_append_sep:
  "contains pat (x @ d # y) \<Longrightarrow> d \<notin> set pat \<Longrightarrow> contains pat x \<or> contains pat y"
proof (induction x)
  case Nil
  then show ?case by (cases pat) auto
next
  case (Cons c cs)
  then show ?case
    using starts_with_append_sep [of pat "c # cs" d y] by auto
qed

lemma contains_js_join:
  "\<forall>f \<in> set fs. \<not> contains pat f \<Longrightarrow> d \<notin> set pat \<Longrightarrow> pat \<noteq> [] \<Longrightarrow>
     \<not> contains pat (js_join [d] fs)"
proof (induction "[d]" fs rule: js_join.induct)
  case 1
  then show ?case by simp
next
  case (2 x)
  then show ?case by simp
next
  case (3 x y ys)
  then show ?case
    using contains_append_sep [of pat x d "js_join [d] (y # ys)"] by auto
qed

lemma not_contains_without_head:
  "p \<notin> set x \<Longrightarrow> \<not> contains (p # ps) x"
  by (induction x) auto

lemma starts_with_contains: "starts_with pat s \<Longrightarrow> contains pat s"
  by (cases s) (auto simp add: starts_with_def)

lemma contains_append_pat: "contains pat (a @ pat @ b)"
proof (induction a)
  case Nil
  show ?case by (rule starts_with_contains) (simp add: starts_with_def)
next
  case (Cons c cs)
  then show ?case by simp
qed

lemma show_nat_digits: "set (show_nat n) \<subseteq> set ''0123456789''"
proof (induction n rule: show_nat.induct)
  case (1 n)
  have d: "\<And>k. k < 10 \<Longrightarrow> ''0123456789'' ! k \<in> set ''0123456789''"
    by (rule nth_mem) simp
  show ?case
  proof (cases "n < 10")
    case True
    then show ?thesis using d [of n] by (subst show_nat.simps) simp
  next
    case False
    have "n mod 10 < 10" by simp
    then show ?thesis
      using False 1 d [of "n mod 10"] by (subst show_nat.simps) simp
  qed
qed

lemma stamp_update_text:
  assumes "\<not> contains ''SET '' table"
  shows \<open>stamp_modified (''UPDATE "'' @ table @ ''" SET '' @ rest)
           = ''UPDATE "'' @ table @ ''" SET modified = now(), '' @ rest\<close>
proof -
  have c: \<open>contains ''UPDATE'' (''UPDATE "'' @ table @ ''" SET '' @ rest)\<close>
    by simp
  have \<open>replace_first ''SET '' ''SET modified = now(), '' (''UPDATE "'' @ table @ ''" SET '' @ rest)
     = ''UPDATE "'' @ table @ ''" SET modified = now(), '' @ rest\<close>
    using assms by (simp add: replace_first_append_sep)
  then show ?thesis using c by (simp add: stamp_modified_def)
qed

lemma contains_append_left: "contains pat y \<Longrightarrow> contains pat (x @ y)"
  by (induction x) simp_all

lemma contains_skip_segment:
  "d \<notin> set pat \<Longrightarrow> \<not> contains pat x \<Longrightarrow> contains pat (x @ d # y) = contains pat (d # y)"
proof -
  assume d: "d \<notin> set pat" and x: "\<not> contains pat x"
  have "contains pat (d # y) = contains pat y"
    using d by (cases pat) auto
  moreover have "contains pat (x @ d # y) \<Longrightarrow> contains pat y"
    using contains_append_sep [of pat x d y] d x by blast
  moreover have "contains pat y \<Longrightarrow> contains pat (x @ d # y)"
    using contains_append_left [of pat "d # y" x] by simp
  ultimately show ?thesis by blast
qed

lemma replace_first_absent: "\<not> contains pat s \<Longrightarrow> replace_first pat rep s = s"
  by (induction s) auto

section \<open>What each call executes\<close>

lemma sanitizeFields_disabled:
  "\<not> dbSanitizeFields cfg \<Longrightarrow>
     sanitizeFields cfg drv lg table flds compareId = (Resolved (Sanitized flds None), lg)"
  by (simp add: sanitizeFields_def sanitizeFields_with_def)

lemma snd_query: "snd (query drv lg sql args index) = lg @ [(stamp_modified sql, Some args)]"
  by (simp add: query_def Let_def split: reply.splits sum.splits)

lemma snd_query_callback: "snd (query_callback drv lg sql index) = lg @ [(sql, None)]"
  by (simp add: query_callback_def Let_def split: reply.splits sum.splits)

lemma snd_update_unmatched:
  assumes "sanitizeFields cfg drv lg table data (if status then rid else JNull) = (Resolved d, lg1)"
    and "matches d = None"
  shows "snd (update cfg drv lg table rid data status)
    = lg1 @ [(stamp_modified (fst (update_statement cfg table rid (fields d))),
              Some (snd (update_statement cfg table rid (fields d))))]"
proof -
  obtain sql vals where st: "update_statement cfg table rid (fields d) = (sql, vals)"
    by (cases "update_statement cfg table rid (fields d)")
  obtain c lg2 where q: "query drv lg1 sql vals [] = (c, lg2)"
    by (cases "query drv lg1 sql vals []")
  have "lg2 = lg1 @ [(stamp_modified sql, Some vals)]"
    using snd_query [of drv lg1 sql vals "[]"] q by simp
  then show ?thesis
    using assms st q by (cases c) (simp_all add: update_def)
qed

lemma snd_delete:
  "snd (delete cfg drv lg table rid idField) = lg @ [(delete_sql cfg table rid idField, None)]"
proof -
  obtain c lg1 where q: "query_callback drv lg (delete_sql cfg table rid idField) [] = (c, lg1)"
    by (cases "query_callback drv lg (delete_sql cfg table rid idField) []")
  have "lg1 = lg @ [(delete_sql cfg table rid idField, None)]"
    using snd_query_callback [of drv lg "delete_sql cfg table rid idField" "[]"] q by simp
  then show ?thesis
    using q by (cases c) (simp_all add: delete_def)
qed

lemma sanitizeFields_with_falsy:
  "\<not> truthy compareId \<Longrightarrow>
     sanitizeFields_with sel cfg drv lg table flds compareId
       = sanitizeFields_with sel' cfg drv lg table flds compareId"
  by (simp add: sanitizeFields_with_def Let_def split: prod.splits called.splits)

lemma select_calls_sanitizeFields:
  "sanitizeFields_with (\<lambda>lg0 t f. (Pending, lg0)) cfg drv lg table fltr JNull
     = sanitizeFields cfg drv lg table fltr JNull"
  unfolding sanitizeFields_def by (rule sanitizeFields_with_falsy) simp



lemma where_keys_text: "\<exists>w. fst (where_keys ps vals sql) = sql @ w"
proof (induction ps arbitrary: vals sql)
  case Nil
  show ?case by simp
next
  case (Cons p ps)
  obtain key v where p: "p = (key, v)" by (cases p)
  obtain w where "fst (where_keys ps (vals @ [v]) (sql @ key @ '' = $'' @ show_nat (length (vals @ [v]))))
      = (sql @ key @ '' = $'' @ show_nat (length (vals @ [v]))) @ w"
    using Cons.IH by blast
  then show ?case using p by simp
qed

lemma update_where_text: "\<exists>w. fst (update_where table rid vals sql) = sql @ w"
  using where_keys_text [of "enumerable rid" vals sql] by (simp add: update_where_def)

lemma update_statement_text:
  \<open>\<exists>rest. fst (update_statement cfg table rid flds) = ''UPDATE "'' @ table @ ''" SET '' @ rest\<close>
proof -
  obtain sf vs where s: "update_set cfg flds = (sf, vs)"
    by (cases "update_set cfg flds")
  obtain w where w: \<open>fst (update_where table rid vs (''UPDATE "'' @ table @ ''" SET '' @ js_join '', '' sf @ '' WHERE ''))
     = (''UPDATE "'' @ table @ ''" SET '' @ js_join '', '' sf @ '' WHERE '') @ w\<close>
    using update_where_text by blast
  show ?thesis
    using s w by (simp add: update_statement_def split_beta)
qed

lemma length_field_placeholders [simp]: "length (field_placeholders i flds) = length flds"
  by (induction i flds rule: field_placeholders.induct) simp_all

lemma where_keys_values: "\<exists>w. where_keys ps vals sql = (sql @ w, vals @ map snd ps)"
proof (induction ps arbitrary: vals sql)
  case Nil
  show ?case by simp
next
  case (Cons p ps)
  obtain key v where p: "p = (key, v)" by (cases p)
  obtain w where "where_keys ps (vals @ [v]) (sql @ key @ '' = $'' @ show_nat (length (vals @ [v])))
      = ((sql @ key @ '' = $'' @ show_nat (length (vals @ [v]))) @ w, (vals @ [v]) @ map snd ps)"
    using Cons.IH by blast
  then show ?case using p by simp
qed

lemma update_where_values: "\<exists>w more. update_where table rid vals sql = (sql @ w, vals @ more)"
proof (cases "typeof_object rid")
  case True
  then show ?thesis
    using where_keys_values [of "enumerable rid" vals sql] by (auto simp add: update_where_def)
next
  case False
  then show ?thesis by (simp add: update_where_def)
qed









lemma group_rows_groups:
  assumes "\<forall>r \<in> set rs. js_String (js_get r index) \<notin> set object_prototype_keys"
  shows "group_rows index rs acc
    = Inr (\<lambda>k. case acc k of
                 Some l \<Rightarrow> Some (l @ filter (\<lambda>r. js_String (js_get r index) = k) rs)
               | None \<Rightarrow>
                   if filter (\<lambda>r. js_String (js_get r index) = k) rs = [] then None
                   else Some (filter (\<lambda>r. js_String (js_get r index) = k) rs))"
  using assms
proof (induction rs arbitrary: acc)
  case Nil
  show ?case by (auto simp add: fun_eq_iff split: option.splits)
next
  case (Cons r rs)
  let ?k = "js_String (js_get r index)"
  have rest: "\<forall>r \<in> set rs. js_String (js_get r index) \<notin> set object_prototype_keys"
    using Cons.prems by simp
  have nk: "?k \<notin> set object_prototype_keys"
    using Cons.prems by simp
  show ?case
  proof (cases "acc ?k")
    case None
    have step: "group_rows index (r # rs) acc = group_rows index rs (acc(?k \<mapsto> [r]))"
      using None nk by (simp add: Let_def)
    show ?thesis
      unfolding step Cons.IH [OF rest, of "acc(?k \<mapsto> [r])"]
      using None by (auto simp add: fun_eq_iff split: option.splits)
  next
    case (Some l)
    have step: "group_rows index (r # rs) acc = group_rows index rs (acc(?k \<mapsto> l @ [r]))"
      using Some by (simp add: Let_def)
    show ?thesis
      unfolding step Cons.IH [OF rest, of "acc(?k \<mapsto> l @ [r])"]
      using Some by (auto simp add: fun_eq_iff split: option.splits)
  qed
qed

lemma query_Failure:
  "drv lg (stamp_modified sql, Some args) = Failure m \<Longrightarrow>
     query drv lg sql args index
       = (CallErr (JsError m (ArgsValues args)), lg @ [(stamp_modified sql, Some args)])"
  by (simp add: query_def)


lemma index_placeholders_no_S:
  "\<forall>x \<in> set (index_placeholders i flds). \<not> contains ''SET '' x"
proof (induction i flds rule: index_placeholders.induct)
  case (1 index)
  show ?case by simp
next
  case (2 index field v rest)
  have "CHR ''S'' \<notin> set (''$'' @ show_nat index)"
    using show_nat_digits [of index] by auto
  then have "\<not> contains ''SET '' (''$'' @ show_nat index)"
    by (rule not_contains_without_head)
  then show ?case using 2 by simp
qed

lemma snd_insert_row:
  assumes "sanitizeFields cfg drv lg table data JNull = (Resolved d, lg1)"
  shows "snd (insert_row cfg drv lg table data conflict conflictUpdate)
    = lg1 @ [(stamp_modified (insert_sql cfg table (fields d) conflict conflictUpdate),
              Some (map snd (fields d)))]"
proof -
  obtain c lg2 where q: "query drv lg1 (insert_sql cfg table (fields d) conflict conflictUpdate)
      (map snd (fields d)) [] = (c, lg2)"
    by (cases "query drv lg1 (insert_sql cfg table (fields d) conflict conflictUpdate)
      (map snd (fields d)) []")
  have l: "lg2 = lg1 @ [(stamp_modified (insert_sql cfg table (fields d) conflict conflictUpdate),
              Some (map snd (fields d)))]"
    using snd_query [of drv lg1 "insert_sql cfg table (fields d) conflict conflictUpdate"
        "map snd (fields d)" "[]"] q by simp
  show ?thesis
  proof (cases c)
    case Threw
    then show ?thesis using assms q l by (simp add: insert_row_def)
  next
    case (CallErr e)
    then show ?thesis using assms q l by (simp add: insert_row_def)
  next
    case (CallOk res)
    then show ?thesis using assms q l by (cases "rows res") (simp_all add: insert_row_def)
  qed
qed

lemma stamp_insert_plain:
  assumes t: "\<not> contains ''SET '' table"
    and f: "\<forall>f \<in> set fs. \<not> contains ''SET '' f"
    and i: "\<forall>x \<in> set is. \<not> contains ''SET '' x"
  shows \<open>stamp_modified (''INSERT INTO "'' @ table @ ''" ('' @ js_join '','' fs
            @ '') VALUES ('' @ js_join '','' is @ '') RETURNING '' @ table @ ''id'')
         = ''INSERT INTO "'' @ table @ ''" ('' @ js_join '','' fs
            @ '') VALUES ('' @ js_join '','' is @ '') RETURNING '' @ table @ ''id''\<close>
proof -
  have j1: "\<not> contains ''SET '' (js_join '','' fs)"
    using f by (intro contains_js_join) simp_all
  have j2: "\<not> contains ''SET '' (js_join '','' is)"
    using i by (intro contains_js_join) simp_all
  have \<open>\<not> contains ''SET '' (''INSERT INTO "'' @ table @ ''" ('' @ js_join '','' fs
            @ '') VALUES ('' @ js_join '','' is @ '') RETURNING '' @ table @ ''id'')\<close>
    using t j1 j2 by (simp add: contains_skip_segment)
  then have \<open>replace_first ''SET '' ''SET modified = now(), ''
          (''INSERT INTO "'' @ table @ ''" ('' @ js_join '','' fs
            @ '') VALUES ('' @ js_join '','' is @ '') RETURNING '' @ table @ ''id'')
      = ''INSERT INTO "'' @ table @ ''" ('' @ js_join '','' fs
            @ '') VALUES ('' @ js_join '','' is @ '') RETURNING '' @ table @ ''id''\<close>
    by (rule replace_first_absent)
  then show ?thesis
    unfolding stamp_modified_def by (simp only: if_cancel)
qed

lemma stamp_insert_conflict:
  assumes t: "\<not> contains ''SET '' table"
    and f: "\<forall>f \<in> set fs. \<not> contains ''SET '' f"
    and i: "\<forall>x \<in> set is. \<not> contains ''SET '' x"
    and c: "\<forall>c \<in> set cs. \<not> contains ''SET '' c"
  shows \<open>stamp_modified (''INSERT INTO "'' @ table @ ''" ('' @ js_join '','' fs
            @ '') VALUES ('' @ js_join '','' is @ '')  ON CONFLICT ('' @ js_join '','' cs
            @ '') DO UPDATE SET '' @ rest)
         = ''INSERT INTO "'' @ table @ ''" ('' @ js_join '','' fs
            @ '') VALUES ('' @ js_join '','' is @ '')  ON CONFLICT ('' @ js_join '','' cs
            @ '') DO UPDATE SET modified = now(), '' @ rest\<close>
proof -
  have j1: "\<not> contains ''SET '' (js_join '','' fs)"
    using f by (intro contains_js_join) simp_all
  have j2: "\<not> contains ''SET '' (js_join '','' is)"
    using i by (intro contains_js_join) simp_all
  have j3: "\<not> contains ''SET '' (js_join '','' cs)"
    using c by (intro contains_js_join) simp_all
  have \<open>contains ''UPDATE'' ((''INSERT INTO "'' @ table @ ''" ('' @ js_join '','' fs
            @ '') VALUES ('' @ js_join '','' is @ '')  ON CONFLICT ('' @ js_join '','' cs
            @ '') DO '') @ ''UPDATE'' @ ('' SET '' @ rest))\<close>
    by (rule contains_append_pat)
  then have u: \<open>contains ''UPDATE'' (''INSERT INTO "'' @ table @ ''" ('' @ js_join '','' fs
            @ '') VALUES ('' @ js_join '','' is @ '')  ON CONFLICT ('' @ js_join '','' cs
            @ '') DO UPDATE SET '' @ rest)\<close>
    by simp
  have r: \<open>replace_first ''SET '' ''SET modified = now(), ''
           (''INSERT INTO "'' @ table @ ''" ('' @ js_join '','' fs
            @ '') VALUES ('' @ js_join '','' is @ '')  ON CONFLICT ('' @ js_join '','' cs
            @ '') DO UPDATE SET '' @ rest)
         = ''INSERT INTO "'' @ table @ ''" ('' @ js_join '','' fs
            @ '') VALUES ('' @ js_join '','' is @ '')  ON CONFLICT ('' @ js_join '','' cs
            @ '') DO UPDATE SET modified = now(), '' @ rest\<close>
    using t j1 j2 j3 by (simp add: replace_first_append_sep)
  show ?thesis
    unfolding stamp_modified_def using u r by simp
qed
















section \<open>The WHERE clause of update on a composite key\<close>

text \<open>
  Claim C1. The claim: for an update whose id is an object of several column-value
  pairs, the WHERE clause is those \<open>column = $n\<close> pairs joined by AND. The loop over
  the keys of the id appends each pair to the text and puts nothing between two pairs.
  With the constants of the source file, the update of table \<open>t\<close> with id
  \<open>{a: 1, b: 2}\<close> and data \<open>{x: 5}\<close> executes one statement, whose WHERE clause reads
  \<open>a = $3b = $4\<close>.
\<close>

theorem update_composite_key_not_joined:
  \<open>snd (update (source_config stringify) drv [] ''t''
          (JObj [(''a'', JNum 1), (''b'', JNum 2)]) [(''x'', JNum 5)] False)
   = [(''UPDATE "t" SET modified = now(), x = $1, datastateid = $2 WHERE a = $3b = $4 RETURNING *'',
       Some [JNum 5, JNull, JNum 1, JNum 2])]\<close>
proof -
  have off: "\<not> dbSanitizeFields (source_config stringify)"
    by (simp add: source_config_def)
  have st: \<open>update_statement (source_config stringify) ''t''
          (JObj [(''a'', JNum 1), (''b'', JNum 2)]) [(''x'', JNum 5)]
     = (''UPDATE "t" SET x = $1, datastateid = $2 WHERE a = $3b = $4 RETURNING *'',
        [JNum 5, JNull, JNum 1, JNum 2])\<close>
    by (simp add: update_statement_def update_set_def update_where_def source_config_def
        status_column_def js_get_def show_nat.simps)
  have stamp: \<open>stamp_modified ''UPDATE "t" SET x = $1, datastateid = $2 WHERE a = $3b = $4 RETURNING *''
     = ''UPDATE "t" SET modified = now(), x = $1, datastateid = $2 WHERE a = $3b = $4 RETURNING *''\<close>
    by (simp add: stamp_modified_def starts_with_def)
  show ?thesis
    using snd_update_unmatched [OF _ , of "source_config stringify" drv "[]" "''t''" "[(''x'', JNum 5)]" False
        "JObj [(''a'', JNum 1), (''b'', JNum 2)]" "Sanitized [(''x'', JNum 5)] None" "[]"]
      sanitizeFields_disabled [OF off]
    by (simp add: st stamp)
qed

section \<open>The implicit status predicate of select\<close>



section \<open>The update that changes nothing\<close>




section \<open>The ON CONFLICT clause of insert\<close>

text \<open>
  Claim C4, as stated, fails: the text of an upsert contains \<open>UPDATE\<close>, so \<open>query\<close>
  stamps it like an update. The executed DO UPDATE SET assigns \<open>modified\<close> to \<open>now()\<close>
  before the conflictUpdate columns and the status column.
\<close>

theorem insert_upsert_assigns_modified:
  \<open>snd (insert_row config_plain driver_users [] ''users'' [(''name'', JStr ''Bob'')]
          (ConflictColumns [''name'']) [''name''])
    = [(''INSERT INTO "users" (name) VALUES ($1)  ON CONFLICT (name) DO UPDATE SET modified = now(), name = EXCLUDED.name, datastateid = 1 RETURNING usersid'',
        Some [JStr ''Bob''])]\<close>
proof -
  have off: "\<not> dbSanitizeFields config_plain"
    by (simp add: config_plain_def)
  have t: \<open>stamp_modified (insert_sql config_plain ''users'' [(''name'', JStr ''Bob'')]
          (ConflictColumns [''name'']) [''name''])
      = ''INSERT INTO "users" (name) VALUES ($1)  ON CONFLICT (name) DO UPDATE SET modified = now(), name = EXCLUDED.name, datastateid = 1 RETURNING usersid''\<close>
    by (simp add: insert_sql_def config_plain_def status_123_def status_column_def
        stamp_modified_def show_nat.simps)
  show ?thesis
    using snd_insert_row [OF sanitizeFields_disabled [OF off], of driver_users "[]" "''users''"
        "[(''name'', JStr ''Bob'')]" "ConflictColumns [''name'']" "[''name'']"] t
    by simp
qed

text \<open>
  Claim C4, amended. With a null conflict argument the text insert builds is the INSERT
  with its column list, its placeholders and RETURNING, and no ON CONFLICT clause. With
  a non-empty array of conflict columns, the clause lists exactly those columns, and its
  DO UPDATE SET assigns each conflictUpdate column from EXCLUDED, then the status column
  to the Active value when a status column is configured and is not among the inserted
  fields, and nothing else. Insert executes the text as \<open>query\<close> stamps it: when the
  table name, the field names and the conflict columns do not contain \<open>SET \<close>, the
  text without a clause is executed as it is, and the text of an upsert is executed with
  \<open>modified = now(), \<close> added at the head of its DO UPDATE SET.
\<close>

theorem insert_conflict_clause:
  \<open>insert_sql cfg table flds NoConflict conflictUpdate
      = ''INSERT INTO "'' @ table @ ''" ('' @ js_join '','' (map fst flds)
          @ '') VALUES ('' @ js_join '','' (index_placeholders 1 flds)
          @ '') RETURNING '' @ table @ ''id''
   \<and> (cs \<noteq> [] \<longrightarrow>
      insert_sql cfg table flds (ConflictColumns cs) conflictUpdate
        = ''INSERT INTO "'' @ table @ ''" ('' @ js_join '','' (map fst flds)
            @ '') VALUES ('' @ js_join '','' (index_placeholders 1 flds)
            @ '')  ON CONFLICT ('' @ js_join '','' cs @ '') DO UPDATE SET ''
            @ js_join '', ''
                (map (\<lambda>c. c @ '' = EXCLUDED.'' @ c) conflictUpdate
                 @ (case status_column cfg of
                      Some s \<Rightarrow>
                        if s \<notin> set (map fst flds)
                        then [s @ '' = '' @ js_String (Active (dbStatusValues cfg))] else []
                    | None \<Rightarrow> []))
            @ '' RETURNING '' @ table @ ''id'')
   \<and> (\<not> contains ''SET '' table \<and> (\<forall>f \<in> set (map fst flds). \<not> contains ''SET '' f) \<longrightarrow>
      stamp_modified (insert_sql cfg table flds NoConflict conflictUpdate)
        = insert_sql cfg table flds NoConflict conflictUpdate)
   \<and> (cs \<noteq> [] \<and> \<not> contains ''SET '' table
        \<and> (\<forall>f \<in> set (map fst flds). \<not> contains ''SET '' f)
        \<and> (\<forall>c \<in> set cs. \<not> contains ''SET '' c) \<longrightarrow>
      stamp_modified (insert_sql cfg table flds (ConflictColumns cs) conflictUpdate)
        = ''INSERT INTO "'' @ table @ ''" ('' @ js_join '','' (map fst flds)
            @ '') VALUES ('' @ js_join '','' (index_placeholders 1 flds)
            @ '')  ON CONFLICT ('' @ js_join '','' cs @ '') DO UPDATE SET modified = now(), ''
            @ js_join '', ''
                (map (\<lambda>c. c @ '' = EXCLUDED.'' @ c) conflictUpdate
                 @ (case status_column cfg of
                      Some s \<Rightarrow>
                        if s \<notin> set (map fst flds)
                        then [s @ '' = '' @ js_String (Active (dbStatusValues cfg))] else []
                    | None \<Rightarrow> []))
            @ '' RETURNING '' @ table @ ''id'')
   \<and> (sanitizeFields cfg drv lg table data JNull = (Resolved d, lg1) \<longrightarrow>
      snd (insert_row cfg drv lg table data conflict conflictUpdate)
        = lg1 @ [(stamp_modified (insert_sql cfg table (fields d) conflict conflictUpdate),
                  Some (map snd (fields d)))])\<close>
proof -
  let ?du = "map (\<lambda>c. c @ '' = EXCLUDED.'' @ c) conflictUpdate
                 @ (case status_column cfg of
                      Some s \<Rightarrow>
                        if s \<notin> set (map fst flds)
                        then [s @ '' = '' @ js_String (Active (dbStatusValues cfg))] else []
                    | None \<Rightarrow> [])"
  have plain: \<open>insert_sql cfg table flds NoConflict conflictUpdate
      = ''INSERT INTO "'' @ table @ ''" ('' @ js_join '','' (map fst flds)
          @ '') VALUES ('' @ js_join '','' (index_placeholders 1 flds)
          @ '') RETURNING '' @ table @ ''id''\<close>
    by (simp add: insert_sql_def)
  have upsert: \<open>insert_sql cfg table flds (ConflictColumns cs) conflictUpdate
        = ''INSERT INTO "'' @ table @ ''" ('' @ js_join '','' (map fst flds)
            @ '') VALUES ('' @ js_join '','' (index_placeholders 1 flds)
            @ '')  ON CONFLICT ('' @ js_join '','' cs @ '') DO UPDATE SET ''
            @ js_join '', '' ?du @ '' RETURNING '' @ table @ ''id''\<close> if "cs \<noteq> []"
    using that by (simp add: insert_sql_def Let_def split: option.splits)
  have splain: "stamp_modified (insert_sql cfg table flds NoConflict conflictUpdate)
        = insert_sql cfg table flds NoConflict conflictUpdate"
    if "\<not> contains ''SET '' table \<and> (\<forall>f \<in> set (map fst flds). \<not> contains ''SET '' f)"
    unfolding plain
    using that stamp_insert_plain [of table "map fst flds" "index_placeholders 1 flds"]
      index_placeholders_no_S [of 1 flds]
    by blast
  have supsert: \<open>stamp_modified (insert_sql cfg table flds (ConflictColumns cs) conflictUpdate)
        = ''INSERT INTO "'' @ table @ ''" ('' @ js_join '','' (map fst flds)
            @ '') VALUES ('' @ js_join '','' (index_placeholders 1 flds)
            @ '')  ON CONFLICT ('' @ js_join '','' cs @ '') DO UPDATE SET modified = now(), ''
            @ js_join '', '' ?du @ '' RETURNING '' @ table @ ''id''\<close>
    if "cs \<noteq> [] \<and> \<not> contains ''SET '' table
        \<and> (\<forall>f \<in> set (map fst flds). \<not> contains ''SET '' f)
        \<and> (\<forall>c \<in> set cs. \<not> contains ''SET '' c)"
  proof -
    have cs: "cs \<noteq> []" using that by simp
    show ?thesis
      unfolding upsert [OF cs]
      using that stamp_insert_conflict [of table "map fst flds" "index_placeholders 1 flds" cs
          "js_join '', '' ?du @ '' RETURNING '' @ table @ ''id''"]
        index_placeholders_no_S [of 1 flds]
      by blast
  qed
  have exec: "snd (insert_row cfg drv lg table data conflict conflictUpdate)
        = lg1 @ [(stamp_modified (insert_sql cfg table (fields d) conflict conflictUpdate),
                  Some (map snd (fields d)))]"
    if "sanitizeFields cfg drv lg table data JNull = (Resolved d, lg1)"
    using that by (rule snd_insert_row)
  show ?thesis
    using plain upsert splain supsert exec by blast
qed

theorem insert_conflict_clause_witness:
  \<open>insert_sql config_plain ''users'' [(''name'', JStr ''Bob'')] NoConflict []
      = ''INSERT INTO "users" (name) VALUES ($1) RETURNING usersid''
   \<and> stamp_modified (insert_sql config_plain ''users'' [(''name'', JStr ''Bob'')] NoConflict [])
      = ''INSERT INTO "users" (name) VALUES ($1) RETURNING usersid''
   \<and> insert_sql config_plain ''users'' [(''name'', JStr ''Bob'')] (ConflictColumns [''name'']) [''name'']
      = ''INSERT INTO "users" (name) VALUES ($1)  ON CONFLICT (name) DO UPDATE SET name = EXCLUDED.name, datastateid = 1 RETURNING usersid''
   \<and> stamp_modified (insert_sql config_plain ''users'' [(''name'', JStr ''Bob'')]
          (ConflictColumns [''name'']) [''name''])
      = ''INSERT INTO "users" (name) VALUES ($1)  ON CONFLICT (name) DO UPDATE SET modified = now(), name = EXCLUDED.name, datastateid = 1 RETURNING usersid''
   \<and> snd (insert_row config_plain driver_users [] ''users'' [(''name'', JStr ''Bob'')] NoConflict [])
      = [(''INSERT INTO "users" (name) VALUES ($1) RETURNING usersid'', Some [JStr ''Bob''])]\<close>
proof -
  let ?flds = "[(''name'', JStr ''Bob'')]"
  have off: "\<not> dbSanitizeFields config_plain"
    by (simp add: config_plain_def)
  have s0: "sanitizeFields config_plain driver_users [] ''users'' ?flds JNull
      = (Resolved (Sanitized ?flds None), [])"
    using off by (rule sanitizeFields_disabled)
  have n: "\<not> contains ''SET '' ''users''" "\<forall>f \<in> set (map fst ?flds). \<not> contains ''SET '' f"
    "\<forall>c \<in> set [''name'']. \<not> contains ''SET '' c" "[''name''] \<noteq> []"
    by simp_all
  have sc: "status_column config_plain = Some ''datastateid''"
    by (simp add: config_plain_def status_column_def)
  note t1 = insert_conflict_clause [where cfg = config_plain and table = "''users''"
      and flds = ?flds and conflictUpdate = "[]" and cs = "[''name'']"
      and drv = driver_users and lg = "[]" and data = ?flds and d = "Sanitized ?flds None"
      and ?lg1.0 = "[]" and conflict = NoConflict]
  note t2 = insert_conflict_clause [where cfg = config_plain and table = "''users''"
      and flds = ?flds and conflictUpdate = "[''name'']" and cs = "[''name'']"
      and drv = driver_users and lg = "[]" and data = ?flds and d = "Sanitized ?flds None"
      and ?lg1.0 = "[]" and conflict = NoConflict]
  have av: "js_String (Active (dbStatusValues config_plain)) = ''1''"
    by (simp add: config_plain_def status_123_def show_nat.simps)
  have a: \<open>insert_sql config_plain ''users'' ?flds NoConflict []
      = ''INSERT INTO "users" (name) VALUES ($1) RETURNING usersid''\<close>
    using t1 [THEN conjunct1] by (simp add: show_nat.simps)
  have b: \<open>stamp_modified (insert_sql config_plain ''users'' ?flds NoConflict [])
      = ''INSERT INTO "users" (name) VALUES ($1) RETURNING usersid''\<close>
    using t1 [THEN conjunct2, THEN conjunct2, THEN conjunct1] n a by simp
  have c: \<open>insert_sql config_plain ''users'' ?flds (ConflictColumns [''name'']) [''name'']
      = ''INSERT INTO "users" (name) VALUES ($1)  ON CONFLICT (name) DO UPDATE SET name = EXCLUDED.name, datastateid = 1 RETURNING usersid''\<close>
    using t2 [THEN conjunct2, THEN conjunct1] n sc av by (simp add: show_nat.simps)
  have d: \<open>stamp_modified (insert_sql config_plain ''users'' ?flds (ConflictColumns [''name'']) [''name''])
      = ''INSERT INTO "users" (name) VALUES ($1)  ON CONFLICT (name) DO UPDATE SET modified = now(), name = EXCLUDED.name, datastateid = 1 RETURNING usersid''\<close>
    using t2 [THEN conjunct2, THEN conjunct2, THEN conjunct2, THEN conjunct1] n sc av
    by (simp add: show_nat.simps)
  have e: \<open>snd (insert_row config_plain driver_users [] ''users'' ?flds NoConflict [])
      = [(''INSERT INTO "users" (name) VALUES ($1) RETURNING usersid'', Some [JStr ''Bob''])]\<close>
    using t1 [THEN conjunct2, THEN conjunct2, THEN conjunct2, THEN conjunct2] s0 b by simp
  show ?thesis using a b c d e by simp
qed

section \<open>The timestamp of update\<close>

text \<open>
  Claim C5, as stated, fails: an update with sanitization and comparison enabled whose
  values equal those of the stored row executes no UPDATE at all. Here the update of
  \<open>name\<close> to \<open>Alice\<close> on the row of Alice executes the two schema lookups and the
  SELECT of the row, and resolves with \<open>updated: false\<close>.
\<close>

theorem update_unchanged_executes_no_update:
  \<open>update config_sanitize driver_users [] ''users'' (JNum 1) [(''name'', JStr ''Alice'')] True
    = (Resolved (JObj [(''results'', JObj [(''name'', JStr ''Alice'')]), (''updated'', JBool False)]),
       [(schema_sql ''users'', None), (schema_sql ''users'', None),
        (''SELECT * FROM "users" WHERE usersid = $1 AND datastateid = 1'', Some [JNum 1])])\<close>
  by (simp add: update_def sanitizeFields_def sanitizeFields_with_def config_sanitize_def
      status_123_def driver_users_def query_callback_def buildIndex_def selectOne_def select_def
      query_def select_sql_def update_set_def update_where_def update_statement_def status_column_def js_get_def stamp_modified_def
      sanitize_resolve_def find_column_def users_columns_def alice_row_def coerce_def
      schema_sql_def show_nat.simps Let_def)

text \<open>
  Claim C5, amended. Whenever the sanitization step of an update resolves without a
  match (as it always does when sanitization is disabled), update executes exactly one
  further statement. The text it builds starts with \<open>UPDATE "table" SET\<close>, and when the
  table name does not contain \<open>SET \<close>, the executed text has \<open>modified = now(), \<close>
  right after that \<open>SET\<close>, whatever the data fields are.
\<close>

theorem update_stamps_modified:
  assumes "sanitizeFields cfg drv lg table data (if status then rid else JNull) = (Resolved d, lg1)"
    and "matches d = None"
    and "\<not> contains ''SET '' table"
  shows \<open>\<exists>rest vals.
      update_statement cfg table rid (fields d) = (''UPDATE "'' @ table @ ''" SET '' @ rest, vals)
      \<and> snd (update cfg drv lg table rid data status)
          = lg1 @ [(''UPDATE "'' @ table @ ''" SET modified = now(), '' @ rest, Some vals)]\<close>
proof -
  obtain rest where r: \<open>fst (update_statement cfg table rid (fields d)) = ''UPDATE "'' @ table @ ''" SET '' @ rest\<close>
    using update_statement_text by blast
  have \<open>update_statement cfg table rid (fields d)
      = (''UPDATE "'' @ table @ ''" SET '' @ rest, snd (update_statement cfg table rid (fields d)))\<close>
    using r by (cases "update_statement cfg table rid (fields d)") simp
  moreover have \<open>snd (update cfg drv lg table rid data status)
          = lg1 @ [(''UPDATE "'' @ table @ ''" SET modified = now(), '' @ rest,
                    Some (snd (update_statement cfg table rid (fields d))))]\<close>
    using snd_update_unmatched [OF assms(1,2)] r stamp_update_text [OF assms(3)] by simp
  ultimately show ?thesis by blast
qed

theorem update_stamps_modified_witness:
  \<open>sanitizeFields config_plain driver_users [] ''users'' [(''name'', JStr ''Bob'')]
       (if False then JNum 1 else JNull)
      = (Resolved (Sanitized [(''name'', JStr ''Bob'')] None), [])
   \<and> \<not> contains ''SET '' ''users''
   \<and> snd (update config_plain driver_users [] ''users'' (JNum 1) [(''name'', JStr ''Bob'')] False)
       = [(''UPDATE "users" SET modified = now(), name = $1, datastateid = $2 WHERE usersid = $3 RETURNING *'',
           Some [JStr ''Bob'', JNum 1, JNum 1])]\<close>
proof -
  have h1: "sanitizeFields config_plain driver_users [] ''users'' [(''name'', JStr ''Bob'')]
       (if False then JNum 1 else JNull)
      = (Resolved (Sanitized [(''name'', JStr ''Bob'')] None), [])"
    by (rule sanitizeFields_disabled) (simp add: config_plain_def)
  have h2: "matches (Sanitized [(''name'', JStr ''Bob'')] None) = None"
    by simp
  have h3: "\<not> contains ''SET '' ''users''"
    by simp
  have st: \<open>update_statement config_plain ''users'' (JNum 1) [(''name'', JStr ''Bob'')]
      = (''UPDATE "users" SET name = $1, datastateid = $2 WHERE usersid = $3 RETURNING *'',
         [JStr ''Bob'', JNum 1, JNum 1])\<close>
    by (simp add: update_statement_def update_set_def update_where_def config_plain_def
        status_123_def status_column_def js_get_def show_nat.simps)
  show ?thesis
    using update_stamps_modified [OF h1 h2 h3] h1 h3 by (auto simp add: st)
qed

section \<open>The statement of delete\<close>

text \<open>
  Claim C6. The claim: with a status column configured, delete executes an UPDATE that
  sets the status column to the Deleted status value. The text reads
  \<^verbatim>\<open>dbStatusValues.Deleted\<close>, while the object declares the value under the key
  \<^verbatim>\<open>Delete\<close>. With the status values 1, 2 and 3 for Active, Delete and Archived, the
  delete of row 5 of table \<open>users\<close> executes an UPDATE that sets the column to
  \<open>undefined\<close>, not to 2. The id column is \<open>usersid\<close> by default, as claimed.
\<close>

theorem delete_sets_status_to_undefined:
  \<open>snd (delete \<lparr> dbStatusField = Some ''datastateid'', dbStatusValues = status_123,
                 dbSanitizeFields = False, JSON_stringify = stringify \<rparr>
          drv [] ''users'' (JNum 5) [])
   = [(''UPDATE "users" SET datastateid = undefined WHERE usersid = 5'', None)]\<close>
  by (simp add: snd_delete delete_sql_def status_column_def Deleted_def show_nat.simps)

section \<open>A failing statement\<close>

text \<open>
  Claim C7, as stated, fails. When the driver fails the statement of a select, the
  promise is rejected with a fresh error \<open>Failed select()\<close> that carries no arguments.
  When it fails the statement of a delete, the callback branch of \<open>query\<close> calls
  \<open>buildIndex\<close> on the undefined result, which throws before the callback of delete
  runs: the promise is never settled.
\<close>

theorem select_rejects_without_args_delete_hangs:
  \<open>select config_plain driver_failing [] ''users'' [(''name'', JStr ''Bob'')] None
     = (Rejected (JsError ''Failed select()'' NoArgs),
        [(''SELECT * FROM "users" WHERE name = $1 AND datastateid = 1'', Some [JStr ''Bob''])])
   \<and> delete config_plain driver_failing [] ''users'' (JNum 1) []
     = (Pending, [(''UPDATE "users" SET datastateid = undefined WHERE usersid = 1'', None)])\<close>
  by (simp add: select_def sanitizeFields_with_def config_plain_def status_123_def
      driver_failing_def query_def select_sql_def status_column_def js_get_def
      stamp_modified_def delete_def delete_sql_def Deleted_def query_callback_def
      buildIndex_def show_nat.simps)

text \<open>
  Claim C7, amended. Whenever the sanitization step of the operation resolves (as it
  always does when sanitization is disabled) and the driver fails the statement of the
  operation: select and selectOne reject with the error \<open>Failed select()\<close>, which
  carries no arguments; insert and update reject with the error of the driver, to which
  the positional arguments of the statement are attached. In each case this statement
  is executed once and nothing after it. Delete is left out.
\<close>

theorem failed_statement_rejects:
  "(sanitizeFields cfg drv lg table fltr JNull = (Resolved d, lg1)
      \<and> drv lg1 (stamp_modified (select_sql cfg table (fields d) fltr orderBy),
                  Some (map snd (fields d))) = Failure m \<longrightarrow>
      select cfg drv lg table fltr orderBy
        = (Rejected (JsError ''Failed select()'' NoArgs),
           lg1 @ [(stamp_modified (select_sql cfg table (fields d) fltr orderBy),
                   Some (map snd (fields d)))]))
   \<and> (sanitizeFields cfg drv lg table fltr JNull = (Resolved d, lg1)
      \<and> drv lg1 (stamp_modified (select_sql cfg table (fields d) fltr None),
                  Some (map snd (fields d))) = Failure m \<longrightarrow>
      selectOne cfg drv lg table fltr
        = (Rejected (JsError ''Failed select()'' NoArgs),
           lg1 @ [(stamp_modified (select_sql cfg table (fields d) fltr None),
                   Some (map snd (fields d)))]))
   \<and> (sanitizeFields cfg drv lg table data JNull = (Resolved d, lg1)
      \<and> drv lg1 (stamp_modified (insert_sql cfg table (fields d) conflict conflictUpdate),
                  Some (map snd (fields d))) = Failure m \<longrightarrow>
      insert_row cfg drv lg table data conflict conflictUpdate
        = (Rejected (JsError m (ArgsValues (map snd (fields d)))),
           lg1 @ [(stamp_modified (insert_sql cfg table (fields d) conflict conflictUpdate),
                   Some (map snd (fields d)))]))
   \<and> (sanitizeFields cfg drv lg table data (if status then rid else JNull) = (Resolved d, lg1)
      \<and> matches d = None
      \<and> update_statement cfg table rid (fields d) = (sql, vals)
      \<and> drv lg1 (stamp_modified sql, Some vals) = Failure m \<longrightarrow>
      update cfg drv lg table rid data status
        = (Rejected (JsError m (ArgsValues vals)), lg1 @ [(stamp_modified sql, Some vals)]))"
proof (intro conjI impI)
  assume a: "sanitizeFields cfg drv lg table fltr JNull = (Resolved d, lg1)
      \<and> drv lg1 (stamp_modified (select_sql cfg table (fields d) fltr orderBy),
                  Some (map snd (fields d))) = Failure m"
  then show "select cfg drv lg table fltr orderBy
        = (Rejected (JsError ''Failed select()'' NoArgs),
           lg1 @ [(stamp_modified (select_sql cfg table (fields d) fltr orderBy),
                   Some (map snd (fields d)))])"
    using query_Failure [of drv lg1 "select_sql cfg table (fields d) fltr orderBy"
        "map snd (fields d)" m "[]"]
    by (simp add: select_def select_calls_sanitizeFields)
next
  assume a: "sanitizeFields cfg drv lg table fltr JNull = (Resolved d, lg1)
      \<and> drv lg1 (stamp_modified (select_sql cfg table (fields d) fltr None),
                  Some (map snd (fields d))) = Failure m"
  then show "selectOne cfg drv lg table fltr
        = (Rejected (JsError ''Failed select()'' NoArgs),
           lg1 @ [(stamp_modified (select_sql cfg table (fields d) fltr None),
                   Some (map snd (fields d)))])"
    using query_Failure [of drv lg1 "select_sql cfg table (fields d) fltr None"
        "map snd (fields d)" m "[]"]
    by (simp add: selectOne_def select_def select_calls_sanitizeFields)
next
  assume a: "sanitizeFields cfg drv lg table data JNull = (Resolved d, lg1)
      \<and> drv lg1 (stamp_modified (insert_sql cfg table (fields d) conflict conflictUpdate),
                  Some (map snd (fields d))) = Failure m"
  then show "insert_row cfg drv lg table data conflict conflictUpdate
        = (Rejected (JsError m (ArgsValues (map snd (fields d)))),
           lg1 @ [(stamp_modified (insert_sql cfg table (fields d) conflict conflictUpdate),
                   Some (map snd (fields d)))])"
    using query_Failure [of drv lg1 "insert_sql cfg table (fields d) conflict conflictUpdate"
        "map snd (fields d)" m "[]"]
    by (simp add: insert_row_def)
next
  assume a: "sanitizeFields cfg drv lg table data (if status then rid else JNull) = (Resolved d, lg1)
      \<and> matches d = None
      \<and> update_statement cfg table rid (fields d) = (sql, vals)
      \<and> drv lg1 (stamp_modified sql, Some vals) = Failure m"
  then show "update cfg drv lg table rid data status
        = (Rejected (JsError m (ArgsValues vals)), lg1 @ [(stamp_modified sql, Some vals)])"
    using query_Failure [of drv lg1 sql vals m "[]"]
    by (simp add: update_def)
qed

theorem failed_statement_rejects_witness:
  \<open>select config_plain driver_failing [] ''users'' [(''name'', JStr ''Bob'')] (Some ''name'')
     = (Rejected (JsError ''Failed select()'' NoArgs),
        [(''SELECT * FROM "users" WHERE name = $1 AND datastateid = 1 ORDER BY name'', Some [JStr ''Bob''])])
   \<and> selectOne config_plain driver_failing [] ''users'' [(''name'', JStr ''Bob'')]
     = (Rejected (JsError ''Failed select()'' NoArgs),
        [(''SELECT * FROM "users" WHERE name = $1 AND datastateid = 1'', Some [JStr ''Bob''])])
   \<and> insert_row config_plain driver_failing [] ''users'' [(''name'', JStr ''Bob'')] NoConflict []
     = (Rejected (JsError ''connection lost'' (ArgsValues [JStr ''Bob''])),
        [(''INSERT INTO "users" (name) VALUES ($1) RETURNING usersid'', Some [JStr ''Bob''])])
   \<and> update config_plain driver_failing [] ''users'' (JNum 1) [(''name'', JStr ''Bob'')] False
     = (Rejected (JsError ''connection lost'' (ArgsValues [JStr ''Bob'', JNum 1, JNum 1])),
        [(''UPDATE "users" SET modified = now(), name = $1, datastateid = $2 WHERE usersid = $3 RETURNING *'',
          Some [JStr ''Bob'', JNum 1, JNum 1])])\<close>
proof -
  let ?d = "Sanitized [(''name'', JStr ''Bob'')] None"
  have off: "\<not> dbSanitizeFields config_plain"
    by (simp add: config_plain_def)
  have s0: "sanitizeFields config_plain driver_failing [] ''users'' [(''name'', JStr ''Bob'')] JNull
      = (Resolved ?d, [])"
    using off by (rule sanitizeFields_disabled)
  have s1: "sanitizeFields config_plain driver_failing [] ''users'' [(''name'', JStr ''Bob'')]
        (if False then JNum 1 else JNull) = (Resolved ?d, [])"
    using off by (rule sanitizeFields_disabled)
  have f: "\<And>st. driver_failing [] st = Failure ''connection lost''"
    by (simp add: driver_failing_def)
  have q1: \<open>stamp_modified (select_sql config_plain ''users'' (fields ?d) [(''name'', JStr ''Bob'')] (Some ''name''))
      = ''SELECT * FROM "users" WHERE name = $1 AND datastateid = 1 ORDER BY name''\<close>
    by (simp add: select_sql_def config_plain_def status_123_def status_column_def js_get_def
        stamp_modified_def show_nat.simps)
  have q2: \<open>stamp_modified (select_sql config_plain ''users'' (fields ?d) [(''name'', JStr ''Bob'')] None)
      = ''SELECT * FROM "users" WHERE name = $1 AND datastateid = 1''\<close>
    by (simp add: select_sql_def config_plain_def status_123_def status_column_def js_get_def
        stamp_modified_def show_nat.simps)
  have q3: \<open>stamp_modified (insert_sql config_plain ''users'' (fields ?d) NoConflict [])
      = ''INSERT INTO "users" (name) VALUES ($1) RETURNING usersid''\<close>
    by (simp add: insert_sql_def config_plain_def stamp_modified_def show_nat.simps)
  have u: \<open>update_statement config_plain ''users'' (JNum 1) (fields ?d)
      = (''UPDATE "users" SET name = $1, datastateid = $2 WHERE usersid = $3 RETURNING *'',
         [JStr ''Bob'', JNum 1, JNum 1])\<close>
    by (simp add: update_statement_def update_set_def update_where_def config_plain_def
        status_123_def status_column_def js_get_def show_nat.simps)
  have q4: \<open>stamp_modified ''UPDATE "users" SET name = $1, datastateid = $2 WHERE usersid = $3 RETURNING *''
      = ''UPDATE "users" SET modified = now(), name = $1, datastateid = $2 WHERE usersid = $3 RETURNING *''\<close>
    by (simp add: stamp_modified_def)
  note t = failed_statement_rejects [where cfg = config_plain and drv = driver_failing
      and lg = "[]" and ?lg1.0 = "[]" and table = "''users''" and d = ?d
      and fltr = "[(''name'', JStr ''Bob'')]" and data = "[(''name'', JStr ''Bob'')]"
      and m = "''connection lost''" and orderBy = "Some ''name''" and conflict = NoConflict
      and conflictUpdate = "[]" and status = False and rid = "JNum 1"
      and sql = \<open>''UPDATE "users" SET name = $1, datastateid = $2 WHERE usersid = $3 RETURNING *''\<close>
      and vals = "[JStr ''Bob'', JNum 1, JNum 1]"]
  have c1: "select config_plain driver_failing [] ''users'' [(''name'', JStr ''Bob'')] (Some ''name'')
     = (Rejected (JsError ''Failed select()'' NoArgs),
        [(stamp_modified (select_sql config_plain ''users'' (fields ?d) [(''name'', JStr ''Bob'')] (Some ''name'')),
          Some (map snd (fields ?d)))])"
    using t s0 f by simp
  have c2: "selectOne config_plain driver_failing [] ''users'' [(''name'', JStr ''Bob'')]
     = (Rejected (JsError ''Failed select()'' NoArgs),
        [(stamp_modified (select_sql config_plain ''users'' (fields ?d) [(''name'', JStr ''Bob'')] None),
          Some (map snd (fields ?d)))])"
    using t s0 f by simp
  have c3: "insert_row config_plain driver_failing [] ''users'' [(''name'', JStr ''Bob'')] NoConflict []
     = (Rejected (JsError ''connection lost'' (ArgsValues (map snd (fields ?d)))),
        [(stamp_modified (insert_sql config_plain ''users'' (fields ?d) NoConflict []),
          Some (map snd (fields ?d)))])"
    using t s0 f by simp
  have c4: \<open>update config_plain driver_failing [] ''users'' (JNum 1) [(''name'', JStr ''Bob'')] False
     = (Rejected (JsError ''connection lost'' (ArgsValues [JStr ''Bob'', JNum 1, JNum 1])),
        [(stamp_modified ''UPDATE "users" SET name = $1, datastateid = $2 WHERE usersid = $3 RETURNING *'',
          Some [JStr ''Bob'', JNum 1, JNum 1])])\<close>
    using t s1 u f by simp
  show ?thesis
    using c1 c2 c3 c4 unfolding q1 q2 q3 q4 by simp
qed

section \<open>sanitizeFields\<close>



section \<open>Grouping rows by a column\<close>

text \<open>
  Claim C9, as stated, fails: the key of a group is the string form of the value, so
  values that differ and print alike share a group. With the values 1 and \<open>'1'\<close> in
  column \<open>cat\<close>, the group of the value 1 holds both rows, the second of which does not
  have the value 1.
\<close>

theorem buildIndex_merges_number_and_string:
  "buildIndex (Some mixed_rows) ''cat''
     = Inr \<lparr> rows = mixed_rows, irows = Index (Map.empty(js_String (JNum 1) \<mapsto> mixed_rows)) \<rparr>
   \<and> js_get (mixed_rows ! 1) ''cat'' \<noteq> JNum 1"
  by (simp add: buildIndex_def mixed_rows_def hasOwnProperty_def js_get_def Let_def
      object_prototype_keys_def show_nat.simps)

text \<open>
  Claim C9, amended. For a non-empty index column name and a non-empty list of rows that
  all have the column, none of whose values prints as a name that every object
  inherits (\<open>constructor\<close>, \<open>toString\<close>, ...), \<open>irows\<close> maps the string form of each
  value of the column to the list of exactly the rows whose value has that string form,
  in their original order, and has no other key.
\<close>

theorem buildIndex_groups_by_string:
  assumes "index \<noteq> []" and "rs \<noteq> []"
    and "\<forall>r \<in> set rs. hasOwnProperty r index"
    and "\<forall>r \<in> set rs. js_String (js_get r index) \<notin> set object_prototype_keys"
  shows "\<exists>m. buildIndex (Some rs) index = Inr \<lparr> rows = rs, irows = Index m \<rparr>
           \<and> (\<forall>r \<in> set rs. m (js_String (js_get r index))
                  = Some (filter (\<lambda>r'. js_String (js_get r' index) = js_String (js_get r index)) rs))
           \<and> (\<forall>k. k \<notin> (\<lambda>r. js_String (js_get r index)) ` set rs \<longrightarrow> m k = None)"
proof -
  let ?m = "\<lambda>k. if filter (\<lambda>r. js_String (js_get r index) = k) rs = [] then None
                  else Some (filter (\<lambda>r. js_String (js_get r index) = k) rs)"
  have g: "group_rows index rs Map.empty = Inr ?m"
    using group_rows_groups [OF assms(4), of Map.empty] by simp
  have h: "hasOwnProperty (hd rs) index"
    using assms(2,3) by (cases rs) simp_all
  have b: "buildIndex (Some rs) index = Inr \<lparr> rows = rs, irows = Index ?m \<rparr>"
    using assms(1,2) h g by (simp add: buildIndex_def)
  have 1: "\<forall>r \<in> set rs. ?m (js_String (js_get r index))
                  = Some (filter (\<lambda>r'. js_String (js_get r' index) = js_String (js_get r index)) rs)"
    by (auto simp add: filter_empty_conv)
  have 2: "\<forall>k. k \<notin> (\<lambda>r. js_String (js_get r index)) ` set rs \<longrightarrow> ?m k = None"
    by (auto simp add: filter_empty_conv)
  show ?thesis using b 1 2 by blast
qed

theorem buildIndex_groups_by_string_witness:
  "\<exists>m. buildIndex (Some cat_rows) ''cat'' = Inr \<lparr> rows = cat_rows, irows = Index m \<rparr>
      \<and> m ''x'' = Some [ [(''cat'', JStr ''x''), (''id'', JNum 1)], [(''cat'', JStr ''x''), (''id'', JNum 2)] ]
      \<and> m ''y'' = Some [ [(''cat'', JStr ''y''), (''id'', JNum 3)] ]
      \<and> m ''z'' = None"
proof -
  have h1: "''cat'' \<noteq> []" by simp
  have h2: "cat_rows \<noteq> []" by (simp add: cat_rows_def)
  have h3: "\<forall>r \<in> set cat_rows. hasOwnProperty r ''cat''"
    by (simp add: cat_rows_def hasOwnProperty_def)
  have h4: "\<forall>r \<in> set cat_rows. js_String (js_get r ''cat'') \<notin> set object_prototype_keys"
    by (simp add: cat_rows_def js_get_def object_prototype_keys_def)
  obtain m where b: "buildIndex (Some cat_rows) ''cat'' = Inr \<lparr> rows = cat_rows, irows = Index m \<rparr>"
    and g: "\<forall>r \<in> set cat_rows. m (js_String (js_get r ''cat''))
                  = Some (filter (\<lambda>r'. js_String (js_get r' ''cat'') = js_String (js_get r ''cat'')) cat_rows)"
    and n: "\<forall>k. k \<notin> (\<lambda>r. js_String (js_get r ''cat'')) ` set cat_rows \<longrightarrow> m k = None"
    using buildIndex_groups_by_string [OF h1 h2 h3 h4] by blast
  have x: "m ''x'' = Some [ [(''cat'', JStr ''x''), (''id'', JNum 1)], [(''cat'', JStr ''x''), (''id'', JNum 2)] ]"
    using g by (simp add: cat_rows_def js_get_def)
  have y: "m ''y'' = Some [ [(''cat'', JStr ''y''), (''id'', JNum 3)] ]"
    using g by (simp add: cat_rows_def js_get_def)
  have z: "m ''z'' = None"
    using n by (simp add: cat_rows_def js_get_def)
  show ?thesis using b x y z by blast
qed

section \<open>The status column in the SET clause of update\<close>

text \<open>
  Claim C10, as stated, fails when sanitization coerces the status value. The test
  before the extra assignment reads the fields after sanitization. With sanitization
  enabled and a status column of type character varying, the data \<open>{datastateid: 0}\<close>
  becomes \<open>{datastateid: '0'}\<close>, a non-empty string and so truthy: the SET clause
  assigns the column once, from the data, and not to the Active value 1.
\<close>

theorem update_coerced_status_not_reasserted:
  \<open>snd (update config_sanitize driver_users [] ''users'' (JNum 1) [(''datastateid'', JNum 0)] False)
    = [(schema_sql ''users'', None),
       (''UPDATE "users" SET modified = now(), datastateid = $1 WHERE usersid = $2 RETURNING *'',
        Some [JStr ''0'', JNum 1])]\<close>
  by (simp add: update_def sanitizeFields_def sanitizeFields_with_def config_sanitize_def
      status_123_def driver_users_def query_callback_def buildIndex_def
      query_def update_set_def update_where_def update_statement_def
      status_column_def js_get_def stamp_modified_def
      sanitize_resolve_def find_column_def users_columns_def alice_row_def coerce_def
      schema_sql_def show_nat.simps Let_def)

text \<open>
  Claim C10, amended. Whenever the sanitization step of an update resolves without a
  match, a status column is configured, and the fields after sanitization (the data
  itself when sanitization is disabled) hold no truthy value for it, the SET clause
  update builds ends with one more assignment, of the status column to the next
  placeholder, and the value at that position is the Active value. The statement
  update executes is this text as query stamps it.
\<close>

theorem update_reasserts_active:
  assumes "sanitizeFields cfg drv lg table data (if status then rid else JNull) = (Resolved d, lg1)"
    and "matches d = None"
    and "status_column cfg = Some s"
    and "\<not> truthy (js_get (fields d) s)"
  shows \<open>\<exists>w more.
      update_statement cfg table rid (fields d)
        = (''UPDATE "'' @ table @ ''" SET ''
             @ js_join '', '' (field_placeholders 1 (fields d)
                                @ [s @ '' = $'' @ show_nat (length (fields d) + 1)])
             @ '' WHERE '' @ w,
           map snd (fields d) @ [Active (dbStatusValues cfg)] @ more)
      \<and> snd (update cfg drv lg table rid data status)
        = lg1 @ [(stamp_modified (''UPDATE "'' @ table @ ''" SET ''
                     @ js_join '', '' (field_placeholders 1 (fields d)
                                        @ [s @ '' = $'' @ show_nat (length (fields d) + 1)])
                     @ '' WHERE '' @ w),
                  Some (map snd (fields d) @ [Active (dbStatusValues cfg)] @ more))]\<close>
proof -
  let ?sf = "field_placeholders 1 (fields d) @ [s @ '' = $'' @ show_nat (length (fields d) + 1)]"
  let ?vs = "map snd (fields d) @ [Active (dbStatusValues cfg)]"
  have us: "update_set cfg (fields d) = (?sf, ?vs)"
    using assms(3,4) by (simp add: update_set_def)
  obtain w more where uw: \<open>update_where table rid ?vs
       (''UPDATE "'' @ table @ ''" SET '' @ js_join '', '' ?sf @ '' WHERE '')
     = ((''UPDATE "'' @ table @ ''" SET '' @ js_join '', '' ?sf @ '' WHERE '') @ w, ?vs @ more)\<close>
    using update_where_values by blast
  have st: \<open>update_statement cfg table rid (fields d)
     = (''UPDATE "'' @ table @ ''" SET '' @ js_join '', '' ?sf @ '' WHERE '' @ w @ '' RETURNING *'',
        ?vs @ more)\<close>
    using us uw by (simp add: update_statement_def)
  show ?thesis
    using snd_update_unmatched [OF assms(1,2)] st
    by (intro exI [of _ "w @ '' RETURNING *''"] exI [of _ more]) simp
qed

theorem update_reasserts_active_witness:
  \<open>sanitizeFields config_plain driver_users [] ''users'' [(''name'', JStr ''Bob'')]
       (if False then JNum 1 else JNull)
      = (Resolved (Sanitized [(''name'', JStr ''Bob'')] None), [])
   \<and> status_column config_plain = Some ''datastateid''
   \<and> \<not> truthy (js_get [(''name'', JStr ''Bob'')] ''datastateid'')
   \<and> (\<exists>w more. update_statement config_plain ''users'' (JNum 1) [(''name'', JStr ''Bob'')]
        = (''UPDATE "users" SET name = $1, datastateid = $2 WHERE '' @ w, [JStr ''Bob'', JNum 1] @ more))\<close>
proof -
  have h1: "sanitizeFields config_plain driver_users [] ''users'' [(''name'', JStr ''Bob'')]
       (if False then JNum 1 else JNull)
      = (Resolved (Sanitized [(''name'', JStr ''Bob'')] None), [])"
    by (rule sanitizeFields_disabled) (simp add: config_plain_def)
  have h2: "matches (Sanitized [(''name'', JStr ''Bob'')] None) = None"
    by simp
  have h3: "status_column config_plain = Some ''datastateid''"
    by (simp add: config_plain_def status_column_def)
  have h4: "\<not> truthy (js_get (fields (Sanitized [(''name'', JStr ''Bob'')] None)) ''datastateid'')"
    by (simp add: js_get_def)
  obtain w more where \<open>update_statement config_plain ''users'' (JNum 1)
        (fields (Sanitized [(''name'', JStr ''Bob'')] None))
      = (''UPDATE "'' @ ''users'' @ ''" SET ''
             @ js_join '', '' (field_placeholders 1 (fields (Sanitized [(''name'', JStr ''Bob'')] None))
                 @ [''datastateid'' @ '' = $''
                      @ show_nat (length (fields (Sanitized [(''name'', JStr ''Bob'')] None)) + 1)])
             @ '' WHERE '' @ w,
           map snd (fields (Sanitized [(''name'', JStr ''Bob'')] None))
             @ [Active (dbStatusValues config_plain)] @ more)\<close>
    using update_reasserts_active [OF h1 h2 h3 h4] by blast
  then have \<open>update_statement config_plain ''users'' (JNum 1) [(''name'', JStr ''Bob'')]
        = (''UPDATE "users" SET name = $1, datastateid = $2 WHERE '' @ w, [JStr ''Bob'', JNum 1] @ more)\<close>
    by (simp add: show_nat.simps config_plain_def status_123_def)
  then show ?thesis using h1 h3 h4 by auto
qed

end
